theory Spec2Isabelle
  imports Complex_Main "HOL-Library.Word"
begin

section \<open>Landmark tables and bounding boxes\<close>

text \<open>
  The module \<^verbatim>\<open>core/image_processor.py\<close> works on a pandas data frame of landmarks
  with the columns \<^verbatim>\<open>index\<close>, \<^verbatim>\<open>x\<close> and \<^verbatim>\<open>y\<close>. A row is a record, the frame is
  the list of its rows in order, and an argument that may be \<^verbatim>\<open>None\<close> is an option.
  Python's float coordinates are read as real numbers: the arithmetic of the model is
  exact, so results that depend on binary rounding, infinities or NaN are outside it.
  Where the truncation to an integer could land elsewhere after a rounding, a statement
  below keeps to inputs on which float64 is exact, or leaves room for the rounding.
\<close>

text \<open>
  The exceptions the module can end with are those of Python, numpy, pandas and OpenCV.
  \<^verbatim>\<open>MissingLandmarkError\<close> is the error the specification names for an eye landmark
  that is not in the table; the module defines and raises no such exception, and the
  value stands here so that a result can be compared with it.
\<close>

datatype py_error = AttributeError | IndexError | ValueError | Cv2Error | MissingLandmarkError

record landmark =
  lm_index :: int
  lm_x :: real
  lm_y :: real

type_synonym bbox = "int \<times> int \<times> int \<times> int"

text \<open>Python's \<^verbatim>\<open>int(v)\<close> on a float truncates towards zero.\<close>

definition py_int :: "real \<Rightarrow> int" where
  "py_int v = (if 0 \<le> v then \<lfloor>v\<rfloor> else \<lceil>v\<rceil>)"

text \<open>
  \<^verbatim>\<open>calculate_face_bbox\<close>: \<^verbatim>\<open>None\<close> for an absent or empty frame, otherwise the
  min/max box of the columns, padded, with only the left and the top clamped at zero.
\<close>

definition calculate_face_bbox :: "landmark list option \<Rightarrow> real \<Rightarrow> bbox option" where
  "calculate_face_bbox landmarks_df padding_percent =
     (case landmarks_df of
        None \<Rightarrow> None
      | Some df \<Rightarrow>
          if df = [] then None
          else
            let min_x = Min (set (map lm_x df));
                max_x = Max (set (map lm_x df));
                min_y = Min (set (map lm_y df));
                max_y = Max (set (map lm_y df));
                width = max_x - min_x;
                height = max_y - min_y;
                pad_x = width * padding_percent;
                pad_y = height * padding_percent;
                x1 = max 0 (min_x - pad_x);
                y1 = max 0 (min_y - pad_y);
                x2 = max_x + pad_x;
                y2 = max_y + pad_y
            in Some (py_int x1, py_int y1, py_int (x2 - x1), py_int (y2 - y1)))"


section \<open>The roll angle of the face\<close>

definition LEFT_EYE :: int where
  "LEFT_EYE = 33"

definition RIGHT_EYE :: int where
  "RIGHT_EYE = 263"

text \<open>
  \<^verbatim>\<open>np.arctan2(dy, dx)\<close> as the angle of the point \<open>(dx, dy)\<close> in \<open>(-\<pi>, \<pi>]\<close>, and
  \<^verbatim>\<open>np.degrees\<close>.
\<close>

definition arctan2 :: "real \<Rightarrow> real \<Rightarrow> real" where
  "arctan2 dy dx =
     (if 0 < dx then arctan (dy / dx)
      else if dx < 0 then (if 0 \<le> dy then arctan (dy / dx) + pi else arctan (dy / dx) - pi)
      else if 0 < dy then pi / 2
      else if dy < 0 then - (pi / 2)
      else 0)"

definition degrees :: "real \<Rightarrow> real" where
  "degrees r = r * 180 / pi"

text \<open>
  \<^verbatim>\<open>calculate_rotation_angle\<close>. The selection \<^verbatim>\<open>df[df['index'] == k]\<close> keeps the rows
  with index \<open>k\<close> in order, and \<^verbatim>\<open>.iloc[0]\<close> on an empty selection raises
  \<^verbatim>\<open>IndexError\<close>.
\<close>

definition calculate_rotation_angle :: "landmark list option \<Rightarrow> py_error + real" where
  "calculate_rotation_angle landmarks_df =
     (case landmarks_df of
        None \<Rightarrow> Inr 0
      | Some df \<Rightarrow>
          if df = [] then Inr 0
          else
            (case filter (\<lambda>r. lm_index r = LEFT_EYE) df of
               [] \<Rightarrow> Inl IndexError
             | left_eye # _ \<Rightarrow>
                 (case filter (\<lambda>r. lm_index r = RIGHT_EYE) df of
                    [] \<Rightarrow> Inl IndexError
                  | right_eye # _ \<Rightarrow>
                      let dx = lm_x right_eye - lm_x left_eye;
                          dy = lm_y right_eye - lm_y left_eye
                      in Inr (degrees (arctan2 dy dx)))))"

section \<open>Pixel arrays\<close>

text \<open>
  A numpy array is its shape and its samples in row-major order, tagged with the
  dtype: 8-bit samples are words, float samples are reals. A numpy array always holds
  as many samples as the product of its shape.
\<close>

datatype samples = U8 "8 word list" | F32 "real list" | F64 "real list"

record ndarray =
  shape :: "nat list"
  buf :: samples

fun nsamples :: "samples \<Rightarrow> nat" where
  "nsamples (U8 xs) = length xs"
| "nsamples (F32 xs) = length xs"
| "nsamples (F64 xs) = length xs"

definition wf_ndarray :: "ndarray \<Rightarrow> bool" where
  "wf_ndarray a = (nsamples (buf a) = prod_list (shape a))"

fun is_U8 :: "samples \<Rightarrow> bool" where
  "is_U8 (U8 xs) = True"
| "is_U8 (F32 xs) = False"
| "is_U8 (F64 xs) = False"

fun is_F64 :: "samples \<Rightarrow> bool" where
  "is_F64 (U8 xs) = False"
| "is_F64 (F32 xs) = False"
| "is_F64 (F64 xs) = True"

text \<open>The samples at the given flat positions, in that order.\<close>

fun gather :: "nat list \<Rightarrow> samples \<Rightarrow> samples" where
  "gather idx (U8 xs) = U8 (map (\<lambda>i. xs ! i) idx)"
| "gather idx (F32 xs) = F32 (map (\<lambda>i. xs ! i) idx)"
| "gather idx (F64 xs) = F64 (map (\<lambda>i. xs ! i) idx)"

text \<open>
  Python's \<^verbatim>\<open>slice(start, stop).indices(n)\<close>: a negative bound counts from the end,
  and both bounds are clipped to \<open>[0, n]\<close>. Nothing is raised for a bound out of range.
\<close>

definition py_slice_indices :: "nat \<Rightarrow> int \<Rightarrow> int \<Rightarrow> nat \<times> nat" where
  "py_slice_indices n start stop =
     (let clip = (\<lambda>i. if i < 0 then max 0 (i + int n) else min i (int n))
      in (nat (clip start), nat (clip stop)))"

text \<open>
  \<^verbatim>\<open>image[a:b, c:d]\<close>: rows \<open>a..b\<close> and columns \<open>c..d\<close> of the first two axes; an
  array with fewer than two axes raises \<^verbatim>\<open>IndexError\<close>. An empty range gives a
  dimension of length 0.
\<close>

definition getitem_slice2 :: "ndarray \<Rightarrow> int \<Rightarrow> int \<Rightarrow> int \<Rightarrow> int \<Rightarrow> py_error + ndarray" where
  "getitem_slice2 img a b c d =
     (case shape img of
        h # w # rest \<Rightarrow>
          (case (py_slice_indices h a b, py_slice_indices w c d) of
             ((r0, r1), (c0, c1)) \<Rightarrow>
               let inner = prod_list rest
               in Inr \<lparr>shape = (r1 - r0) # (c1 - c0) # rest,
                       buf = gather
                         (concat (map (\<lambda>i. concat (map (\<lambda>j. map (\<lambda>k. (i * w + j) * inner + k)
                            [0..<inner]) [c0..<c1])) [r0..<r1]))
                         (buf img)\<rparr>)
      | _ \<Rightarrow> Inl IndexError)"

text \<open>\<^verbatim>\<open>image[0]\<close>: the first entry along the first axis.\<close>

definition getitem0 :: "ndarray \<Rightarrow> py_error + ndarray" where
  "getitem0 img =
     (case shape img of
        [] \<Rightarrow> Inl IndexError
      | n # rest \<Rightarrow>
          if n = 0 then Inl IndexError
          else Inr \<lparr>shape = rest, buf = gather [0..<prod_list rest] (buf img)\<rparr>)"

text \<open>
  \<^verbatim>\<open>image[i, j]\<close> for an in-range row \<open>i\<close> and column \<open>j\<close>: the pixel there, an array
  over the remaining axes. It is how the content of a crop is read.
\<close>

definition getitem_index2 :: "ndarray \<Rightarrow> nat \<Rightarrow> nat \<Rightarrow> py_error + ndarray" where
  "getitem_index2 img i j =
     (case shape img of
        h # w # rest \<Rightarrow>
          if i < h \<and> j < w
          then Inr \<lparr>shape = rest,
                    buf = gather (map (\<lambda>k. (i * w + j) * prod_list rest + k) [0..<prod_list rest])
                            (buf img)\<rparr>
          else Inl IndexError
      | _ \<Rightarrow> Inl IndexError)"

text \<open>
  \<^verbatim>\<open>(image * 255).astype(np.uint8)\<close>: uint8 samples wrap in the product; float samples
  are multiplied, truncated and reduced to 8 bits.
\<close>

definition scale_to_uint8 :: "ndarray \<Rightarrow> ndarray" where
  "scale_to_uint8 img =
     img\<lparr>buf :=
       (case buf img of
          U8 xs \<Rightarrow> U8 (map (\<lambda>v. v * 255) xs)
        | F32 xs \<Rightarrow> U8 (map (\<lambda>v. word_of_int (py_int (v * 255))) xs)
        | F64 xs \<Rightarrow> U8 (map (\<lambda>v. word_of_int (py_int (v * 255))) xs))\<rparr>"

text \<open>
  \<^verbatim>\<open>cv2.cvtColor\<close> for the two conversions the module asks for, on the shapes it is
  called with. OpenCV converts 8-bit and float32 images that are not empty and raises
  \<^verbatim>\<open>cv2.error\<close> otherwise. \<^verbatim>\<open>COLOR_GRAY2RGB\<close> repeats the sample of each pixel three
  times; \<^verbatim>\<open>COLOR_RGBA2RGB\<close> drops the fourth sample of each pixel.
\<close>

datatype color_code = COLOR_GRAY2RGB | COLOR_RGBA2RGB

definition cvtColor :: "ndarray \<Rightarrow> color_code \<Rightarrow> py_error + ndarray" where
  "cvtColor src code =
     (if is_F64 (buf src) \<or> prod_list (shape src) = 0 then Inl Cv2Error
      else
        (case code of
           COLOR_GRAY2RGB \<Rightarrow>
             (case shape src of
                [h, w] \<Rightarrow>
                  Inr \<lparr>shape = [h, w, 3],
                       buf = gather (concat (map (\<lambda>i. [i, i, i]) [0..<h * w])) (buf src)\<rparr>
              | _ \<Rightarrow> Inl Cv2Error)
         | COLOR_RGBA2RGB \<Rightarrow>
             (case shape src of
                [h, w, c] \<Rightarrow>
                  if c = 4
                  then Inr \<lparr>shape = [h, w, 3],
                            buf = gather (concat (map (\<lambda>i. [4 * i, 4 * i + 1, 4 * i + 2])
                              [0..<h * w])) (buf src)\<rparr>
                  else Inl Cv2Error
              | _ \<Rightarrow> Inl Cv2Error)))"

section \<open>Normalising the input image\<close>

text \<open>
  The argument of \<^verbatim>\<open>_convert_to_numpy\<close> is a torch tensor (given as the array
  \<^verbatim>\<open>.detach().cpu().numpy()\<close> makes of it), a PIL image (given as the array
  \<^verbatim>\<open>np.array\<close> makes of it), a numpy array, or something else such as \<^verbatim>\<open>None\<close>, which
  has no \<^verbatim>\<open>shape\<close> attribute.
\<close>

datatype image_input = Tensor ndarray | PILImage ndarray | NDArray ndarray | PyNone

definition strip_batch :: "ndarray \<Rightarrow> py_error + ndarray" where
  "strip_batch img = (if length (shape img) = 4 then getitem0 img else Inr img)"

definition convert_to_numpy :: "image_input \<Rightarrow> py_error + ndarray" where
  "convert_to_numpy img =
     (case
        (case img of
           Tensor t \<Rightarrow>
             (case strip_batch t of Inl e \<Rightarrow> Inl e | Inr t0 \<Rightarrow> Inr (scale_to_uint8 t0))
         | PILImage p \<Rightarrow> Inr p
         | NDArray n \<Rightarrow>
             (case buf n of
                F32 xs \<Rightarrow>
                  if xs = [] then Inl ValueError
                  else if Max (set xs) \<le> 1 then strip_batch (scale_to_uint8 n)
                  else strip_batch n
              | _ \<Rightarrow> strip_batch n)
         | PyNone \<Rightarrow> Inl AttributeError)
      of
        Inl e \<Rightarrow> Inl e
      | Inr a \<Rightarrow>
          if length (shape a) = 2 then cvtColor a COLOR_GRAY2RGB
          else if length (shape a) < 3 then Inl IndexError
          else if shape a ! 2 = 4 then cvtColor a COLOR_RGBA2RGB
          else Inr a)"

section \<open>Cropping\<close>

definition crop_face :: "image_input \<Rightarrow> landmark list option \<Rightarrow> real \<Rightarrow> py_error + ndarray option" where
  "crop_face img landmarks_df padding_percent =
     (case convert_to_numpy img of
        Inl e \<Rightarrow> Inl e
      | Inr image_np \<Rightarrow>
          (case calculate_face_bbox landmarks_df padding_percent of
             None \<Rightarrow> Inr None
           | Some (x, y, w, h) \<Rightarrow>
               (case getitem_slice2 image_np y (y + h) x (x + w) of
                  Inl e \<Rightarrow> Inl e
                | Inr cropped \<Rightarrow> Inr (Some cropped))))"

definition crop_face_to_square ::
  "ndarray \<Rightarrow> landmark list option \<Rightarrow> real \<Rightarrow> py_error + (ndarray option \<times> bbox option)" where
  "crop_face_to_square img landmarks_df padding_percent =
     (case calculate_face_bbox landmarks_df padding_percent of
        None \<Rightarrow> Inr (None, None)
      | Some (x, y, w, h) \<Rightarrow>
          if length (shape img) < 2 then Inl IndexError
          else
            let center_x = x + w div 2;
                center_y = y + h div 2;
                crop_size = max w h;
                half_size = crop_size div 2;
                x1 = max 0 (center_x - half_size);
                y1 = max 0 (center_y - half_size);
                x2 = min (int (shape img ! 1)) (center_x + half_size);
                y2 = min (int (shape img ! 0)) (center_y + half_size);
                x1 = (if x2 - x1 < crop_size then max 0 (x2 - crop_size) else x1);
                y1 = (if y2 - y1 < crop_size then max 0 (y2 - crop_size) else y1)
            in (case getitem_slice2 img y1 y2 x1 x2 of
                  Inl e \<Rightarrow> Inl e
                | Inr cropped_face \<Rightarrow> Inr (Some cropped_face, Some (x1, y1, x2 - x1, y2 - y1))))"

section \<open>Rotating the image with its landmarks\<close>

text \<open>
  \<^verbatim>\<open>cv2.getRotationMatrix2D(center, angle, scale)\<close>: the 2x3 matrix of the rotation by
  \<open>angle\<close> degrees about \<open>center\<close>, as its two rows.
\<close>

type_synonym affine = "(real \<times> real \<times> real) \<times> (real \<times> real \<times> real)"

definition getRotationMatrix2D :: "real \<times> real \<Rightarrow> real \<Rightarrow> real \<Rightarrow> affine" where
  "getRotationMatrix2D center angle scale =
     (let alpha = scale * cos (angle * pi / 180);
          beta = scale * sin (angle * pi / 180);
          cx = fst center;
          cy = snd center
      in ((alpha, beta, (1 - alpha) * cx - beta * cy),
          (- beta, alpha, beta * cx + (1 - alpha) * cy)))"

text \<open>
  \<^verbatim>\<open>rotate_image\<close>. The resampler \<^verbatim>\<open>cv2.warpAffine\<close> is a parameter. The image is
  normalised before anything is tested, so what \<^verbatim>\<open>_convert_to_numpy\<close> raises leaves the
  function; the result of the normalisation is an array, never \<^verbatim>\<open>None\<close>.
\<close>

definition rotate_image ::
  "(ndarray \<Rightarrow> affine \<Rightarrow> nat \<times> nat \<Rightarrow> ndarray) \<Rightarrow> image_input \<Rightarrow> landmark list option
     \<Rightarrow> py_error + (ndarray option \<times> landmark list option)" where
  "rotate_image warpAffine img landmarks_df =
     (case convert_to_numpy img of
        Inl e \<Rightarrow> Inl e
      | Inr image_np \<Rightarrow>
          (case landmarks_df of
             None \<Rightarrow> Inr (None, None)
           | Some df \<Rightarrow>
               (case calculate_rotation_angle landmarks_df of
                  Inl e \<Rightarrow> Inl e
                | Inr angle \<Rightarrow>
                    let height = shape image_np ! 0;
                        width = shape image_np ! 1;
                        center = (real (width div 2), real (height div 2));
                        rotation_matrix = getRotationMatrix2D center angle 1;
                        rotated_image = warpAffine image_np rotation_matrix (width, height);
                        updated_landmarks =
                          map (\<lambda>r. case rotation_matrix of
                                 ((a, b, c), (d, e, f)) \<Rightarrow>
                                   r\<lparr>lm_x := a * lm_x r + b * lm_y r + c,
                                     lm_y := d * lm_x r + e * lm_y r + f\<rparr>) df
                    in Inr (Some rotated_image, Some updated_landmarks))))"


section \<open>Properties of the bounding box\<close>

lemma col_min_le_max: "vs \<noteq> [] \<Longrightarrow> Min (set vs) \<le> Max (set vs)"
  by (metis List.finite_set Max_ge Min_le hd_in_set order_trans set_empty)

lemma py_int_bounds: "\<bar>real_of_int (py_int v) - v\<bar> < 1"
  unfolding py_int_def by (simp split: if_splits) linarith

lemma py_int_ge0_iff: "(0 \<le> py_int v) = (- 1 < v)"
  unfolding py_int_def by (simp split: if_splits)

lemma calculate_face_bbox_Some:
  "df \<noteq> [] \<Longrightarrow>
   calculate_face_bbox (Some df) p =
     Some (py_int (max 0 (Min (set (map lm_x df)) - (Max (set (map lm_x df)) - Min (set (map lm_x df))) * p)),
           py_int (max 0 (Min (set (map lm_y df)) - (Max (set (map lm_y df)) - Min (set (map lm_y df))) * p)),
           py_int (Max (set (map lm_x df)) + (Max (set (map lm_x df)) - Min (set (map lm_x df))) * p
                   - max 0 (Min (set (map lm_x df)) - (Max (set (map lm_x df)) - Min (set (map lm_x df))) * p)),
           py_int (Max (set (map lm_y df)) + (Max (set (map lm_y df)) - Min (set (map lm_y df))) * p
                   - max 0 (Min (set (map lm_y df)) - (Max (set (map lm_y df)) - Min (set (map lm_y df))) * p)))"
  by (simp add: calculate_face_bbox_def Let_def)

lemma calculate_face_bbox_SomeD: "calculate_face_bbox lm p = Some b \<Longrightarrow> \<exists>df. lm = Some df \<and> df \<noteq> []"
  by (auto simp: calculate_face_bbox_def split: option.splits if_splits)

text \<open>The four components along one axis, with \<open>mn\<close> and \<open>mx\<close> the extremes of the column.\<close>

lemma axis_origin_nonneg: "0 \<le> py_int (max 0 v)"
  by (simp add: py_int_ge0_iff)

lemma py_int_of_int: "v \<in> \<int> \<Longrightarrow> real_of_int (py_int v) = v"
  by (auto simp: py_int_def elim!: Ints_cases)

lemma axis_exact:
  fixes mn mx p :: real
  assumes "mn \<in> \<int>" and "mx \<in> \<int>" and "p * (mx - mn) \<in> \<int>"
  shows "real_of_int (py_int (max 0 (mn - (mx - mn) * p))) = max 0 (mn - p * (mx - mn))"
    and "real_of_int (py_int (mx + (mx - mn) * p - max 0 (mn - (mx - mn) * p)))
           = mx + p * (mx - mn) - max 0 (mn - p * (mx - mn))"
proof -
  have c: "(mx - mn) * p = p * (mx - mn)"
    by (simp add: mult.commute)
  have a: "max 0 (mn - p * (mx - mn)) \<in> \<int>"
    using assms by (simp add: max_def)
  then show "real_of_int (py_int (max 0 (mn - (mx - mn) * p))) = max 0 (mn - p * (mx - mn))"
    unfolding c by (rule py_int_of_int)
  have "mx + p * (mx - mn) - max 0 (mn - p * (mx - mn)) \<in> \<int>"
    using assms a by simp
  then show "real_of_int (py_int (mx + (mx - mn) * p - max 0 (mn - (mx - mn) * p)))
           = mx + p * (mx - mn) - max 0 (mn - p * (mx - mn))"
    unfolding c by (rule py_int_of_int)
qed

lemma axis_near:
  fixes mn mx p :: real
  shows "\<bar>real_of_int (py_int (max 0 (mn - (mx - mn) * p))) - max 0 (mn - p * (mx - mn))\<bar> < 2"
    and "\<bar>real_of_int (py_int (mx + (mx - mn) * p - max 0 (mn - (mx - mn) * p)))
           - (mx + p * (mx - mn) - max 0 (mn - p * (mx - mn)))\<bar> < 2"
  using py_int_bounds[of "max 0 (mn - (mx - mn) * p)"]
        py_int_bounds[of "mx + (mx - mn) * p - max 0 (mn - (mx - mn) * p)"]
  by (simp_all add: mult.commute)

lemma axis_origin_unpadded: "py_int (max 0 (mn - (mx - mn) * 0)) = \<lfloor>max 0 mn\<rfloor>"
  by (simp add: py_int_def)

lemma axis_summary:
  fixes mn mx p :: real
  shows "0 \<le> py_int (max 0 (mn - (mx - mn) * p))"
    and "p = 0 \<longrightarrow> py_int (max 0 (mn - (mx - mn) * p)) = \<lfloor>max 0 mn\<rfloor>"
    and "\<bar>mn\<bar> \<le> 2 ^ 40 \<and> \<bar>mx\<bar> \<le> 2 ^ 40 \<and> p * (mx - mn) \<le> 2 ^ 40 \<longrightarrow>
                \<bar>real_of_int (py_int (max 0 (mn - (mx - mn) * p))) - max 0 (mn - p * (mx - mn))\<bar> < 2
              \<and> \<bar>real_of_int (py_int (mx + (mx - mn) * p - max 0 (mn - (mx - mn) * p)))
                   - (mx + p * (mx - mn) - max 0 (mn - p * (mx - mn)))\<bar> < 2
              \<and> (mn \<in> \<int> \<and> mx \<in> \<int> \<and> p * (mx - mn) \<in> \<int> \<longrightarrow>
                    real_of_int (py_int (max 0 (mn - (mx - mn) * p))) = max 0 (mn - p * (mx - mn))
                  \<and> real_of_int (py_int (mx + (mx - mn) * p - max 0 (mn - (mx - mn) * p)))
                      = mx + p * (mx - mn) - max 0 (mn - p * (mx - mn)))"
proof -
  show "0 \<le> py_int (max 0 (mn - (mx - mn) * p))"
    by (rule axis_origin_nonneg)
  show "p = 0 \<longrightarrow> py_int (max 0 (mn - (mx - mn) * p)) = \<lfloor>max 0 mn\<rfloor>"
    using axis_origin_unpadded[of mn mx] by blast
  show "\<bar>mn\<bar> \<le> 2 ^ 40 \<and> \<bar>mx\<bar> \<le> 2 ^ 40 \<and> p * (mx - mn) \<le> 2 ^ 40 \<longrightarrow>
                \<bar>real_of_int (py_int (max 0 (mn - (mx - mn) * p))) - max 0 (mn - p * (mx - mn))\<bar> < 2
              \<and> \<bar>real_of_int (py_int (mx + (mx - mn) * p - max 0 (mn - (mx - mn) * p)))
                   - (mx + p * (mx - mn) - max 0 (mn - p * (mx - mn)))\<bar> < 2
              \<and> (mn \<in> \<int> \<and> mx \<in> \<int> \<and> p * (mx - mn) \<in> \<int> \<longrightarrow>
                    real_of_int (py_int (max 0 (mn - (mx - mn) * p))) = max 0 (mn - p * (mx - mn))
                  \<and> real_of_int (py_int (mx + (mx - mn) * p - max 0 (mn - (mx - mn) * p)))
                      = mx + p * (mx - mn) - max 0 (mn - p * (mx - mn)))"
    using axis_near[where mn = mn and mx = mx and p = p]
      axis_exact[where mn = mn and mx = mx and p = p] by blast
qed

lemma axis_extent_nonneg:
  fixes mn mx p :: real
  assumes "0 \<le> mn" "mn \<le> mx" "- (1 / 2) \<le> p"
  shows "0 \<le> py_int (mx + (mx - mn) * p - max 0 (mn - (mx - mn) * p))"
proof (cases "(mx - mn) * p \<le> mn")
  case True
  have e: "mx + (mx - mn) * p - (mn - (mx - mn) * p) = (1 + 2 * p) * (mx - mn)"
    by (simp add: algebra_simps)
  have "0 \<le> (1 + 2 * p) * (mx - mn)" using assms by simp
  with True show ?thesis by (simp add: py_int_ge0_iff max_def e)
next
  case False
  with assms show ?thesis by (simp add: py_int_ge0_iff max_def)
qed

text \<open>
  C2, as the code has it. The claim promises an added width of \<open>2 * p * width\<close> (within 1)
  for every padding \<open>p \<ge> 0\<close>, and the tight box for \<open>p = 0\<close>. The clamp of the left and
  the top at zero cuts the padding off on that side, and the width is measured from the
  clamped side: two landmarks at 10 and 110 with \<open>p = 1/2\<close> give the box from 0 to 160,
  60 wider than the tight box and not 100.
\<close>

theorem calculate_face_bbox_clamped_counterexample:
  "calculate_face_bbox
     (Some [\<lparr>lm_index = 0, lm_x = 10, lm_y = 10\<rparr>, \<lparr>lm_index = 1, lm_x = 110, lm_y = 110\<rparr>]) (1 / 2)
     = Some (0, 0, 160, 160)
   \<and> \<not> \<bar>real_of_int 160 - ((110 - 10) + 2 * (1 / 2) * (110 - 10))\<bar> \<le> (1 :: real)"
  by (simp add: calculate_face_bbox_def py_int_def)

text \<open>
  C2, amended: for a non-empty landmark table and a padding \<open>p \<ge> 0\<close> the left and the
  top of the box are never negative, and with \<open>p = 0\<close> they are the minimum, clamped at
  zero and truncated. Each dimension is padded by \<open>p * extent\<close> on both sides, but the
  clamp at zero cuts off the part of the left (top) padding that falls below zero, and
  the size is measured from the clamped side. With integer extremes and an integer
  \<open>p * extent\<close>, where float64 computes every step exactly and nothing is truncated, the
  origin is \<open>max 0 (min - p * extent)\<close> and the size is \<open>max + p * extent\<close> minus the
  origin: \<open>extent + 2 * p * extent\<close> when \<open>p * extent \<le> min\<close>, and \<open>max + p * extent\<close>
  otherwise. For other coordinates the origin and the size are these values within less
  than 2: less than 1 for the truncation, the rest for the rounding of float64 next to an
  integer, which is far below 1 for magnitudes up to \<open>2 ^ 40\<close>. The right and the bottom
  are not clamped: in the exact case origin plus size is \<open>max + p * extent\<close>, whatever
  its size.
\<close>

theorem calculate_face_bbox_padded:
  fixes df :: "landmark list" and p min_x max_x min_y max_y :: real
  assumes "df \<noteq> []" and "0 \<le> p"
    and "min_x = Min (set (map lm_x df))" and "max_x = Max (set (map lm_x df))"
    and "min_y = Min (set (map lm_y df))" and "max_y = Max (set (map lm_y df))"
  shows "\<exists>x0 y0 w0 h0.
           calculate_face_bbox (Some df) p = Some (x0, y0, w0, h0)
         \<and> 0 \<le> x0 \<and> 0 \<le> y0
         \<and> (p = 0 \<longrightarrow> x0 = \<lfloor>max 0 min_x\<rfloor> \<and> y0 = \<lfloor>max 0 min_y\<rfloor>)
         \<and> (\<bar>min_x\<bar> \<le> 2 ^ 40 \<and> \<bar>max_x\<bar> \<le> 2 ^ 40 \<and> p * (max_x - min_x) \<le> 2 ^ 40 \<longrightarrow>
                \<bar>real_of_int x0 - max 0 (min_x - p * (max_x - min_x))\<bar> < 2
              \<and> \<bar>real_of_int w0
                   - (max_x + p * (max_x - min_x) - max 0 (min_x - p * (max_x - min_x)))\<bar> < 2
              \<and> (min_x \<in> \<int> \<and> max_x \<in> \<int> \<and> p * (max_x - min_x) \<in> \<int> \<longrightarrow>
                    real_of_int x0 = max 0 (min_x - p * (max_x - min_x))
                  \<and> real_of_int w0
                      = max_x + p * (max_x - min_x) - max 0 (min_x - p * (max_x - min_x))))
         \<and> (\<bar>min_y\<bar> \<le> 2 ^ 40 \<and> \<bar>max_y\<bar> \<le> 2 ^ 40 \<and> p * (max_y - min_y) \<le> 2 ^ 40 \<longrightarrow>
                \<bar>real_of_int y0 - max 0 (min_y - p * (max_y - min_y))\<bar> < 2
              \<and> \<bar>real_of_int h0
                   - (max_y + p * (max_y - min_y) - max 0 (min_y - p * (max_y - min_y)))\<bar> < 2
              \<and> (min_y \<in> \<int> \<and> max_y \<in> \<int> \<and> p * (max_y - min_y) \<in> \<int> \<longrightarrow>
                    real_of_int y0 = max 0 (min_y - p * (max_y - min_y))
                  \<and> real_of_int h0
                      = max_y + p * (max_y - min_y) - max 0 (min_y - p * (max_y - min_y))))"
proof -
  note X = axis_summary[where mn = min_x and mx = max_x and p = p]
    and Y = axis_summary[where mn = min_y and mx = max_y and p = p]
  show ?thesis
    unfolding calculate_face_bbox_Some[OF assms(1)] assms(3-6)[symmetric]
    by (intro exI conjI impI, rule refl) (use X Y in blast)+
qed

theorem calculate_face_bbox_padded_witness:
  "calculate_face_bbox
     (Some [\<lparr>lm_index = 0, lm_x = 10, lm_y = 200\<rparr>, \<lparr>lm_index = 1, lm_x = 110, lm_y = 400\<rparr>]) (1 / 4)
     = Some (0, 150, 135, 300)
   \<and> calculate_face_bbox
     (Some [\<lparr>lm_index = 0, lm_x = 10, lm_y = 200\<rparr>, \<lparr>lm_index = 1, lm_x = 110, lm_y = 400\<rparr>]) 0
     = Some (10, 200, 100, 200)"
  using
    calculate_face_bbox_padded[of
      "[\<lparr>lm_index = 0, lm_x = 10, lm_y = 200\<rparr>, \<lparr>lm_index = 1, lm_x = 110, lm_y = 400\<rparr>]"
      "1 / 4" 10 110 200 400]
    calculate_face_bbox_padded[of
      "[\<lparr>lm_index = 0, lm_x = 10, lm_y = 200\<rparr>, \<lparr>lm_index = 1, lm_x = 110, lm_y = 400\<rparr>]"
      0 10 110 200 400]
  by auto

text \<open>
  C8, as the code has it. The claim promises four non-negative components for every
  padding, negative ones included. With the padding \<open>-1\<close> the padded minimum passes the
  padded maximum and the width and the height are negative.
\<close>

theorem calculate_face_bbox_negative_padding_counterexample:
  "calculate_face_bbox
     (Some [\<lparr>lm_index = 0, lm_x = 0, lm_y = 0\<rparr>, \<lparr>lm_index = 1, lm_x = 10, lm_y = 10\<rparr>]) (- 1)
     = Some (10, 10, - 10, - 10)
   \<and> (- 10 :: int) < 0"
  by (simp add: calculate_face_bbox_def py_int_def)

text \<open>
  C8, amended: for every landmark table and every padding, the \<open>x\<close> and \<open>y\<close> of the
  returned box are non-negative; its width and height are non-negative when the
  padding is at least \<open>-1/2\<close> and no landmark coordinate is negative.
\<close>

theorem calculate_face_bbox_nonneg:
  assumes "calculate_face_bbox (Some df) p = Some (x0, y0, w0, h0)"
  shows "0 \<le> x0 \<and> 0 \<le> y0
       \<and> (- (1 / 2) \<le> p \<and> (\<forall>r \<in> set df. 0 \<le> lm_x r \<and> 0 \<le> lm_y r) \<longrightarrow> 0 \<le> w0 \<and> 0 \<le> h0)"
proof -
  have ne: "df \<noteq> []"
    using assms by (auto simp: calculate_face_bbox_def)
  have ox: "Min (set (map lm_x df)) \<le> Max (set (map lm_x df))"
   and oy: "Min (set (map lm_y df)) \<le> Max (set (map lm_y df))"
    using ne by (simp_all add: col_min_le_max)
  have pos: "(\<forall>r \<in> set df. 0 \<le> lm_x r \<and> 0 \<le> lm_y r) \<Longrightarrow>
     0 \<le> Min (set (map lm_x df)) \<and> 0 \<le> Min (set (map lm_y df))"
    using ne by simp
  show ?thesis
    using assms pos axis_extent_nonneg[OF _ ox, of p] axis_extent_nonneg[OF _ oy, of p]
    unfolding calculate_face_bbox_Some[OF ne]
    by (auto simp: axis_origin_nonneg)
qed

theorem calculate_face_bbox_nonneg_witness:
  "calculate_face_bbox
     (Some [\<lparr>lm_index = 0, lm_x = 0, lm_y = 0\<rparr>, \<lparr>lm_index = 1, lm_x = 10, lm_y = 20\<rparr>]) (- (1 / 4))
     = Some (2, 5, 5, 10)
   \<and> (0 :: int) \<le> 2 \<and> (0 :: int) \<le> 5 \<and> (0 :: int) \<le> 10"
proof -
  have e: "calculate_face_bbox
     (Some [\<lparr>lm_index = 0, lm_x = 0, lm_y = 0\<rparr>, \<lparr>lm_index = 1, lm_x = 10, lm_y = 20\<rparr>]) (- (1 / 4))
     = Some (2, 5, 5, 10)"
    by (simp add: calculate_face_bbox_def py_int_def)
  show ?thesis
    using e calculate_face_bbox_nonneg[OF e] by simp
qed


section \<open>Properties of the roll angle\<close>

lemma filter_head_find:
  "(filter P xs = []) = (find P xs = None)" "(\<exists>ys. filter P xs = y # ys) = (find P xs = Some y)"
  by (induction xs) auto

lemma filter_ConsD:
  assumes "filter P xs = y # ys"
  shows "y \<in> set xs \<and> P y"
proof -
  have "y \<in> set (filter P xs)"
    using assms by simp
  then show ?thesis
    by simp
qed

lemma calculate_rotation_angle_eyes:
  assumes "find (\<lambda>r. lm_index r = 33) df = Some l" and "find (\<lambda>r. lm_index r = 263) df = Some r"
  shows "calculate_rotation_angle (Some df)
           = Inr (degrees (arctan2 (lm_y r - lm_y l) (lm_x r - lm_x l)))"
proof -
  obtain ls rs where "filter (\<lambda>r. lm_index r = 33) df = l # ls" "filter (\<lambda>r. lm_index r = 263) df = r # rs"
    using assms filter_head_find(2) by metis
  moreover have "df \<noteq> []" using assms(1) by auto
  ultimately show ?thesis
    by (simp add: calculate_rotation_angle_def LEFT_EYE_def RIGHT_EYE_def)
qed

lemma arctan2_level: "arctan2 0 dx = (if dx < 0 then pi else 0)"
  by (simp add: arctan2_def)

lemma arctan2_pos_iff: "(0 < arctan2 dy dx) = (0 < dy \<or> (dy = 0 \<and> dx < 0))"
  using arctan_lbound[of "dy / dx"] arctan_ubound[of "dy / dx"]
  by (auto simp: arctan2_def zero_less_arctan_iff zero_less_divide_iff arctan_less_zero_iff divide_less_0_iff not_less)

lemma arctan2_exchange:
  assumes "dx \<noteq> 0 \<or> dy \<noteq> 0"
  shows "arctan2 (- dy) (- dx) = (if 0 < arctan2 dy dx then arctan2 dy dx - pi else arctan2 dy dx + pi)"
  unfolding arctan2_pos_iff using assms by (auto simp: arctan2_def)

lemma degrees_pos_iff: "(0 < degrees a) = (0 < a)"
  by (simp add: degrees_def zero_less_divide_iff zero_less_mult_iff)

lemma degrees_shift: "degrees (a + pi) = degrees a + 180" "degrees (a - pi) = degrees a - 180" "degrees 0 = 0" "degrees pi = 180"
  by (simp_all add: degrees_def field_simps)

text \<open>
  C3, as the code has it. The claim promises a \<^verbatim>\<open>MissingLandmarkError\<close> for a table
  without one of the two eye landmarks. The module has no such exception: with the
  row of index 263 missing, \<^verbatim>\<open>.iloc[0]\<close> on the empty selection raises pandas'
  \<^verbatim>\<open>IndexError\<close>, and that is what leaves the function.
\<close>

theorem calculate_rotation_angle_host_error_counterexample:
  "calculate_rotation_angle (Some [\<lparr>lm_index = 33, lm_x = 1, lm_y = 2\<rparr>]) = Inl IndexError
   \<and> IndexError \<noteq> MissingLandmarkError"
  by (simp add: calculate_rotation_angle_def LEFT_EYE_def RIGHT_EYE_def)

text \<open>
  C3, amended: \<^verbatim>\<open>calculate_rotation_angle\<close> raises exactly when the landmark table is
  present and not empty and has no row with index 33 or no row with index 263; what it
  raises is the \<^verbatim>\<open>IndexError\<close> of \<^verbatim>\<open>.iloc[0]\<close> on the empty selection, never a
  \<^verbatim>\<open>MissingLandmarkError\<close>. For an absent or empty table it returns 0.0.
\<close>

theorem calculate_rotation_angle_raises_iff:
  "((\<exists>e. calculate_rotation_angle lm = Inl e)
      = (\<exists>df. lm = Some df \<and> df \<noteq> [] \<and> (33 \<notin> lm_index ` set df \<or> 263 \<notin> lm_index ` set df)))
   \<and> (\<forall>e. calculate_rotation_angle lm = Inl e \<longrightarrow> e = IndexError)
   \<and> calculate_rotation_angle lm \<noteq> Inl MissingLandmarkError
   \<and> (lm = None \<or> lm = Some [] \<longrightarrow> calculate_rotation_angle lm = Inr 0)"
  by (cases lm)
     (auto simp: calculate_rotation_angle_def LEFT_EYE_def RIGHT_EYE_def filter_empty_conv image_iff
           split: list.splits dest: filter_ConsD)

theorem calculate_rotation_angle_raises_iff_witness:
  "calculate_rotation_angle (Some [\<lparr>lm_index = 33, lm_x = 1, lm_y = 2\<rparr>]) = Inl IndexError
   \<and> calculate_rotation_angle None = Inr 0 \<and> calculate_rotation_angle (Some []) = Inr 0"
proof -
  have "\<exists>e. calculate_rotation_angle (Some [\<lparr>lm_index = 33, lm_x = 1, lm_y = 2\<rparr>]) = Inl e"
    using calculate_rotation_angle_raises_iff[of "Some [\<lparr>lm_index = 33, lm_x = 1, lm_y = 2\<rparr>]"]
    by simp
  then show ?thesis
    using calculate_rotation_angle_raises_iff[of "Some [\<lparr>lm_index = 33, lm_x = 1, lm_y = 2\<rparr>]"]
      calculate_rotation_angle_raises_iff[of None]
      calculate_rotation_angle_raises_iff[of "Some []"]
    by auto
qed

text \<open>
  C9, as the code has it. The claim promises the angle 0.0 for every table whose two eyes
  are level. With the eye of index 33 to the right of the eye of index 263 the vector
  between them points along the negative x axis and the angle is 180.0.
\<close>

theorem calculate_rotation_angle_reversed_eyes_counterexample:
  "calculate_rotation_angle
     (Some [\<lparr>lm_index = 33, lm_x = 1, lm_y = 0\<rparr>, \<lparr>lm_index = 263, lm_x = 0, lm_y = 0\<rparr>]) = Inr 180
   \<and> (180 :: real) \<noteq> 0"
  by (simp add: calculate_rotation_angle_def LEFT_EYE_def RIGHT_EYE_def arctan2_def degrees_def)

text \<open>
  C9, amended: for every table with rows of index 33 and 263 (the first of each), level
  eyes give 0.0 when the eye of index 263 is not left of the eye of index 33, and 180.0
  when it is; exchanging the positions of two distinct eyes turns the angle by half a
  turn: an angle \<open>a > 0\<close> becomes \<open>a - 180\<close>, any other becomes \<open>a + 180\<close>. The sign is
  not flipped.
\<close>

theorem calculate_rotation_angle_level_and_exchange:
  assumes "find (\<lambda>r. lm_index r = 33) df = Some l"
      and "find (\<lambda>r. lm_index r = 263) df = Some r"
      and "find (\<lambda>r. lm_index r = 33) df' = Some l'"
      and "find (\<lambda>r. lm_index r = 263) df' = Some r'"
      and "lm_x l' = lm_x r" and "lm_y l' = lm_y r"
      and "lm_x r' = lm_x l" and "lm_y r' = lm_y l"
  shows "(lm_y l = lm_y r \<and> lm_x l \<le> lm_x r \<longrightarrow> calculate_rotation_angle (Some df) = Inr 0)
       \<and> (lm_y l = lm_y r \<and> lm_x r < lm_x l \<longrightarrow> calculate_rotation_angle (Some df) = Inr 180)
       \<and> (lm_x l \<noteq> lm_x r \<or> lm_y l \<noteq> lm_y r \<longrightarrow>
            (\<exists>a. calculate_rotation_angle (Some df) = Inr a
               \<and> calculate_rotation_angle (Some df') = Inr (if 0 < a then a - 180 else a + 180)))"
proof -
  define dx dy where "dx = lm_x r - lm_x l" and "dy = lm_y r - lm_y l"
  have a: "calculate_rotation_angle (Some df) = Inr (degrees (arctan2 dy dx))"
    unfolding dx_def dy_def by (rule calculate_rotation_angle_eyes[OF assms(1,2)])
  have "calculate_rotation_angle (Some df')
          = Inr (degrees (arctan2 (lm_y r' - lm_y l') (lm_x r' - lm_x l')))"
    by (rule calculate_rotation_angle_eyes[OF assms(3,4)])
  then have a': "calculate_rotation_angle (Some df') = Inr (degrees (arctan2 (- dy) (- dx)))"
    by (simp add: assms(5-8) dx_def dy_def)
  have level: "dy = 0 \<Longrightarrow> degrees (arctan2 dy dx) = (if dx < 0 then 180 else 0)"
    by (simp add: arctan2_level degrees_shift)
  have exch: "dx \<noteq> 0 \<or> dy \<noteq> 0 \<Longrightarrow>
     degrees (arctan2 (- dy) (- dx))
       = (if 0 < degrees (arctan2 dy dx) then degrees (arctan2 dy dx) - 180
          else degrees (arctan2 dy dx) + 180)"
    by (simp add: arctan2_exchange degrees_pos_iff degrees_shift)
  show ?thesis
    unfolding a a' using level exch by (auto simp: dx_def dy_def)
qed

theorem calculate_rotation_angle_level_and_exchange_witness:
  "calculate_rotation_angle
     (Some [\<lparr>lm_index = 33, lm_x = 0, lm_y = 0\<rparr>, \<lparr>lm_index = 263, lm_x = 1, lm_y = 0\<rparr>]) = Inr 0
   \<and> calculate_rotation_angle
     (Some [\<lparr>lm_index = 33, lm_x = 1, lm_y = 0\<rparr>, \<lparr>lm_index = 263, lm_x = 0, lm_y = 0\<rparr>]) = Inr 180"
  using calculate_rotation_angle_level_and_exchange[of
      "[\<lparr>lm_index = 33, lm_x = 0, lm_y = 0\<rparr>, \<lparr>lm_index = 263, lm_x = 1, lm_y = 0\<rparr>]"
      "\<lparr>lm_index = 33, lm_x = 0, lm_y = 0\<rparr>" "\<lparr>lm_index = 263, lm_x = 1, lm_y = 0\<rparr>"
      "[\<lparr>lm_index = 33, lm_x = 1, lm_y = 0\<rparr>, \<lparr>lm_index = 263, lm_x = 0, lm_y = 0\<rparr>]"
      "\<lparr>lm_index = 33, lm_x = 1, lm_y = 0\<rparr>" "\<lparr>lm_index = 263, lm_x = 0, lm_y = 0\<rparr>"]
  by auto


section \<open>Properties of the normalisation\<close>

lemma gather_kind [simp]: "is_U8 (gather idx b) = is_U8 b" "is_F64 (gather idx b) = is_F64 b"
  by (cases b; simp)+

lemma scale_to_uint8_props [simp]:
  "shape (scale_to_uint8 a) = shape a" "is_U8 (buf (scale_to_uint8 a))" "\<not> is_F64 (buf (scale_to_uint8 a))"
  by (simp_all add: scale_to_uint8_def split: samples.splits)


lemma strip_batch_Inr:
  assumes "strip_batch a = Inr out"
  shows "is_U8 (buf out) = is_U8 (buf a)" and "is_F64 (buf out) = is_F64 (buf a)"
    and "shape out = (if length (shape a) = 4 then tl (shape a) else shape a)"
  using assms by (auto simp: strip_batch_def getitem0_def split: if_splits list.splits)


lemma cvtColor_Inr:
  assumes "cvtColor a code = Inr out"
  shows "is_U8 (buf out) = is_U8 (buf a)" and "length (shape out) = 3" and "shape out ! 2 = 3"
  using assms by (auto simp: cvtColor_def split: if_splits color_code.splits list.splits)



lemma convert_to_numpy_ndim:
  assumes "convert_to_numpy inp = Inr out"
  shows "3 \<le> length (shape out)"
  using assms cvtColor_Inr(2)
  by (fastforce simp: convert_to_numpy_def split: sum.splits if_splits)







lemma finish_props:
  assumes "(if length (shape l) = 2 then cvtColor l COLOR_GRAY2RGB
            else if length (shape l) < 3 then Inl IndexError
            else if shape l ! 2 = 4 then cvtColor l COLOR_RGBA2RGB
            else Inr l) = Inr out"
  shows "is_U8 (buf out) = is_U8 (buf l)"
    and "length (shape l) = 2 \<or> (length (shape l) = 3 \<and> (shape l ! 2 = 3 \<or> shape l ! 2 = 4))
           \<Longrightarrow> length (shape out) = 3 \<and> shape out ! 2 = 3"
  using assms cvtColor_Inr[of l _ out]
  by (auto split: if_splits)

lemma convert_to_numpy_loaded:
  assumes "convert_to_numpy inp = Inr out"
  shows "\<exists>a l. (inp = Tensor a \<or> inp = PILImage a \<or> inp = NDArray a)
         \<and> shape l = (if length (shape a) = 4 \<and> inp \<noteq> PILImage a then tl (shape a) else shape a)
         \<and> is_U8 (buf l) = (inp = Tensor a \<or> is_U8 (buf a)
               \<or> (inp = NDArray a \<and> (\<exists>xs. buf a = F32 xs \<and> Max (set xs) \<le> 1)))
         \<and> (if length (shape l) = 2 then cvtColor l COLOR_GRAY2RGB
              else if length (shape l) < 3 then Inl IndexError
              else if shape l ! 2 = 4 then cvtColor l COLOR_RGBA2RGB
              else Inr l) = Inr out"
proof (cases inp)
  case (Tensor a)
  with assms obtain t0 where t0: "strip_batch a = Inr t0"
    by (auto simp: convert_to_numpy_def split: sum.splits)
  show ?thesis
    apply (rule exI[of _ a], rule exI[of _ "scale_to_uint8 t0"])
    using assms Tensor t0 strip_batch_Inr(3)[OF t0]
    by (simp add: convert_to_numpy_def)
next
  case (PILImage a)
  show ?thesis
    apply (rule exI[of _ a], rule exI[of _ a])
    using assms PILImage by (simp add: convert_to_numpy_def)
next
  case (NDArray a)
  show ?thesis
  proof (cases "\<exists>xs. buf a = F32 xs \<and> Max (set xs) \<le> 1")
    case True
    with assms NDArray obtain l where l: "strip_batch (scale_to_uint8 a) = Inr l"
      by (auto simp: convert_to_numpy_def split: sum.splits if_splits)
    show ?thesis
      apply (rule exI[of _ a], rule exI[of _ l])
      using assms NDArray True l strip_batch_Inr[OF l]
      by (auto simp: convert_to_numpy_def split: if_splits)
  next
    case False
    with assms NDArray obtain l where l: "strip_batch a = Inr l"
      by (cases "buf a") (auto simp: convert_to_numpy_def split: sum.splits if_splits)
    show ?thesis
      apply (rule exI[of _ a], rule exI[of _ l])
      using assms NDArray False l strip_batch_Inr[OF l]
      by (cases "buf a") (auto simp: convert_to_numpy_def split: if_splits)
  qed
next
  case PyNone
  with assms show ?thesis by (simp add: convert_to_numpy_def)
qed

text \<open>
  C5, as the code has it. The claim promises 8-bit samples also for float arrays whose
  maximum exceeds 1.0. The branch for arrays scales only when the dtype is float32 and
  the maximum is at most 1.0: a float32 array holding 2.0 is returned with its float
  samples.
\<close>

theorem convert_to_numpy_float_counterexample:
  "convert_to_numpy (NDArray \<lparr>shape = [1, 1, 3], buf = F32 [2, 2, 2]\<rparr>)
     = Inr \<lparr>shape = [1, 1, 3], buf = F32 [2, 2, 2]\<rparr>
   \<and> \<not> is_U8 (F32 [2, 2, 2])"
  by (simp add: convert_to_numpy_def strip_batch_def)

text \<open>
  C5, amended: when \<^verbatim>\<open>_convert_to_numpy\<close> returns, its result has 8-bit samples (each in
  0..255) exactly when the input is a tensor, or has 8-bit samples already, or is a
  float32 pixel array with maximum at most 1.0; a float array with a maximum above 1.0
  or of another float dtype keeps its float samples. The result is a single image of
  three axes with exactly 3 channels when the input is two-dimensional, or
  three-dimensional with 3 or 4 channels, or a four-dimensional tensor or pixel array
  (a batch) with 3 or 4 channels.
\<close>

theorem convert_to_numpy_canonical:
  assumes "convert_to_numpy inp = Inr out"
      and "inp = Tensor a \<or> inp = PILImage a \<or> inp = NDArray a"
  shows "is_U8 (buf out) =
           (inp = Tensor a \<or> is_U8 (buf a)
            \<or> (inp = NDArray a \<and> (\<exists>xs. buf a = F32 xs \<and> Max (set xs) \<le> 1)))
       \<and> (length (shape a) = 2
            \<or> (length (shape a) = 3 \<and> (shape a ! 2 = 3 \<or> shape a ! 2 = 4))
            \<or> (length (shape a) = 4 \<and> (inp = Tensor a \<or> inp = NDArray a)
                 \<and> (shape a ! 3 = 3 \<or> shape a ! 3 = 4))
            \<longrightarrow> length (shape out) = 3 \<and> shape out ! 2 = 3)
       \<and> (\<forall>xs. buf out = U8 xs \<longrightarrow> (\<forall>v \<in> set xs. unat v \<le> 255))"
proof -
  obtain a' l where l:
    "inp = Tensor a' \<or> inp = PILImage a' \<or> inp = NDArray a'"
    "shape l = (if length (shape a') = 4 \<and> inp \<noteq> PILImage a' then tl (shape a') else shape a')"
    "is_U8 (buf l) = (inp = Tensor a' \<or> is_U8 (buf a')
               \<or> (inp = NDArray a' \<and> (\<exists>xs. buf a' = F32 xs \<and> Max (set xs) \<le> 1)))"
    "(if length (shape l) = 2 then cvtColor l COLOR_GRAY2RGB
              else if length (shape l) < 3 then Inl IndexError
              else if shape l ! 2 = 4 then cvtColor l COLOR_RGBA2RGB
              else Inr l) = Inr out"
    using convert_to_numpy_loaded[OF assms(1)] by blast
  have a': "a' = a"
    using l(1) assms(2) by auto
  have kind: "is_U8 (buf out) = is_U8 (buf l)"
    by (rule finish_props(1)[OF l(4)])
  have shp: "length (shape a) = 2
            \<or> (length (shape a) = 3 \<and> (shape a ! 2 = 3 \<or> shape a ! 2 = 4))
            \<or> (length (shape a) = 4 \<and> (inp = Tensor a \<or> inp = NDArray a)
                 \<and> (shape a ! 3 = 3 \<or> shape a ! 3 = 4))
            \<Longrightarrow> length (shape l) = 2 \<or> (length (shape l) = 3 \<and> (shape l ! 2 = 3 \<or> shape l ! 2 = 4))"
    using l(2) unfolding a' by (cases "shape a") (auto simp: nth_Cons')
  have range: "unat v \<le> 255" for v :: "8 word"
    using unsigned_less[of v, where 'a = nat] by simp
  show ?thesis
    using kind l(3) finish_props(2)[OF l(4)] shp range unfolding a' by blast
qed

theorem convert_to_numpy_canonical_witness:
  "convert_to_numpy (NDArray \<lparr>shape = [1, 1, 3], buf = F32 [1, 1 / 2, 0]\<rparr>)
     = Inr \<lparr>shape = [1, 1, 3], buf = U8 [255, 127, 0]\<rparr>
   \<and> is_U8 (U8 [255, 127, 0]) \<and> unat (127 :: 8 word) \<le> 255"
proof -
  have e: "convert_to_numpy (NDArray \<lparr>shape = [1, 1, 3], buf = F32 [1, 1 / 2, 0]\<rparr>)
     = Inr \<lparr>shape = [1, 1, 3], buf = U8 [255, 127, 0]\<rparr>"
    by (simp add: convert_to_numpy_def strip_batch_def scale_to_uint8_def py_int_def)
  show ?thesis
    using e convert_to_numpy_canonical[OF e, of "\<lparr>shape = [1, 1, 3], buf = F32 [1, 1 / 2, 0]\<rparr>"]
    by simp
qed

section \<open>Properties of the crops and of the rotation\<close>

lemma py_slice_indices_nonneg:
  "0 \<le> a \<Longrightarrow> 0 \<le> b \<Longrightarrow> py_slice_indices n a b = (nat (min a (int n)), nat (min b (int n)))"
  by (simp add: py_slice_indices_def)

lemma getitem_slice2_total:
  "shape img = H # W # rest \<Longrightarrow> \<exists>out. getitem_slice2 img a b c d = Inr out"
  by (simp add: getitem_slice2_def Let_def split: prod.splits)

lemma getitem_slice2_shape:
  assumes "shape img = H # W # rest" "0 \<le> a" "0 \<le> b" "0 \<le> c" "0 \<le> d"
      and "getitem_slice2 img a b c d = Inr out"
  shows "shape out = (nat (min b (int H)) - nat (min a (int H))) # (nat (min d (int W)) - nat (min c (int W))) # rest"
  using assms by (auto simp: getitem_slice2_def py_slice_indices_nonneg Let_def)


lemma calculate_face_bbox_origin:
  assumes "calculate_face_bbox lm p = Some (x0, y0, w0, h0)"
  shows "0 \<le> x0" and "0 \<le> y0"
proof -
  obtain df where df: "lm = Some df" "df \<noteq> []"
    using calculate_face_bbox_SomeD[OF assms] by blast
  show "0 \<le> x0" and "0 \<le> y0"
    using assms unfolding df(1) calculate_face_bbox_Some[OF df(2)]
    by (auto simp: axis_origin_nonneg)
qed

lemma square_axis:
  fixes c hf s :: int and N :: nat
  assumes "0 \<le> c" and "0 \<le> hf" and "0 \<le> s"
  shows "0 \<le> (if min (int N) (c + hf) - max 0 (c - hf) < s
             then max 0 (min (int N) (c + hf) - s) else max 0 (c - hf))"
    and "(if min (int N) (c + hf) - max 0 (c - hf) < s
             then max 0 (min (int N) (c + hf) - s) else max 0 (c - hf)) \<le> min (int N) (c + hf)"
    and "min (int N) (c + hf) \<le> int N"
  using assms by auto


lemma bbox_left_edge:
  "calculate_face_bbox
     (Some [\<lparr>lm_index = 0, lm_x = 0, lm_y = 0\<rparr>, \<lparr>lm_index = 1, lm_x = 2, lm_y = 4\<rparr>]) 0 = Some (0, 0, 2, 4)"
  by (simp add: calculate_face_bbox_def py_int_def)

lemma bbox_inside:
  "calculate_face_bbox
     (Some [\<lparr>lm_index = 0, lm_x = 1, lm_y = 1\<rparr>, \<lparr>lm_index = 1, lm_x = 3, lm_y = 3\<rparr>]) 0 = Some (1, 1, 2, 2)"
  by (simp add: calculate_face_bbox_def py_int_def)

lemma bbox_off_image:
  "calculate_face_bbox
     (Some [\<lparr>lm_index = 0, lm_x = - 8, lm_y = 0\<rparr>, \<lparr>lm_index = 1, lm_x = - 4, lm_y = 2\<rparr>]) 0 = Some (0, 0, - 4, 2)"
  by (simp add: calculate_face_bbox_def py_int_def)

lemma bbox_oversized:
  "calculate_face_bbox
     (Some [\<lparr>lm_index = 0, lm_x = 1, lm_y = 0\<rparr>, \<lparr>lm_index = 1, lm_x = 5, lm_y = 7\<rparr>]) 0 = Some (1, 0, 4, 7)"
  by (simp add: calculate_face_bbox_def py_int_def)

lemma slice_left_edge:
  "getitem_slice2 \<lparr>shape = [4, 4], buf = U8 [0, 1, 2, 3, 4, 5, 6, 7, 8, 9, 10, 11, 12, 13, 14, 15]\<rparr> 0 4 0 3
   = Inr \<lparr>shape = [4, 3], buf = U8 [0, 1, 2, 4, 5, 6, 8, 9, 10, 12, 13, 14]\<rparr>"
  by (simp add: getitem_slice2_def py_slice_indices_def upt_conv_Cons)

lemma slice_inside:
  "getitem_slice2 \<lparr>shape = [4, 4], buf = U8 [0, 1, 2, 3, 4, 5, 6, 7, 8, 9, 10, 11, 12, 13, 14, 15]\<rparr> 1 3 1 3
   = Inr \<lparr>shape = [2, 2], buf = U8 [5, 6, 9, 10]\<rparr>"
  by (simp add: getitem_slice2_def py_slice_indices_def upt_conv_Cons)

lemma slice_off_image:
  "getitem_slice2 \<lparr>shape = [2, 3], buf = U8 [10, 11, 12, 20, 21, 22]\<rparr> 0 2 0 (- 1)
   = Inr \<lparr>shape = [2, 2], buf = U8 [10, 11, 20, 21]\<rparr>"
  by (simp add: getitem_slice2_def py_slice_indices_def upt_conv_Cons)

lemma slice_oversized:
  "getitem_slice2 \<lparr>shape = [2, 2, 3], buf = U8 [0, 1, 2, 3, 4, 5, 6, 7, 8, 9, 10, 11]\<rparr> 0 7 1 5
   = Inr \<lparr>shape = [2, 1, 3], buf = U8 [3, 4, 5, 9, 10, 11]\<rparr>"
  by (simp add: getitem_slice2_def py_slice_indices_def upt_conv_Cons)

lemma convert_small_rgb:
  "convert_to_numpy (NDArray \<lparr>shape = [2, 2, 3], buf = U8 [0, 1, 2, 3, 4, 5, 6, 7, 8, 9, 10, 11]\<rparr>)
      = Inr \<lparr>shape = [2, 2, 3], buf = U8 [0, 1, 2, 3, 4, 5, 6, 7, 8, 9, 10, 11]\<rparr>"
  by (simp add: convert_to_numpy_def strip_batch_def)

text \<open>
  C10, as the code has it. The claim promises, for every landmark table with a bounding
  box, a returned box inside the image whose size is the size of the crop. Landmarks
  left of the image (x = -8 and x = -4) give a face box of width -4; the right bound of
  the square is then -1, the returned box has the width -1, and the slice \<^verbatim>\<open>0:-1\<close>
  counts its bound from the end: the crop of the 2 x 3 image has 2 columns.
\<close>

theorem crop_face_to_square_negative_width_counterexample:
  "crop_face_to_square \<lparr>shape = [2, 3], buf = U8 [10, 11, 12, 20, 21, 22]\<rparr>
     (Some [\<lparr>lm_index = 0, lm_x = - 8, lm_y = 0\<rparr>, \<lparr>lm_index = 1, lm_x = - 4, lm_y = 2\<rparr>]) 0
     = Inr (Some \<lparr>shape = [2, 2], buf = U8 [10, 11, 20, 21]\<rparr>, Some (0, 0, - 1, 2))"
  by (simp add: crop_face_to_square_def bbox_off_image Let_def slice_off_image)

text \<open>
  C1: \<^verbatim>\<open>crop_face_to_square\<close> is to return a crop of \<open>cropSize x cropSize\<close> pixels
  whenever the image is that large, also for a box at an edge. The code shifts the left
  (top) bound when the right (bottom) bound was clamped, and does nothing for a clamp
  of the left (top) bound at zero. On a 4 x 4 image the face box \<open>(0, 0, 2, 4)\<close> has
  \<open>cropSize = 4\<close>; the centred square starts at column -1, is clamped to start at 0 and
  ends at column 3: the crop is 4 rows by 3 columns, with the box \<open>(0, 0, 3, 4)\<close>.
\<close>

theorem crop_face_to_square_left_edge:
  "calculate_face_bbox
     (Some [\<lparr>lm_index = 0, lm_x = 0, lm_y = 0\<rparr>, \<lparr>lm_index = 1, lm_x = 2, lm_y = 4\<rparr>]) 0 = Some (0, 0, 2, 4)
   \<and> crop_face_to_square \<lparr>shape = [4, 4], buf = U8 [0, 1, 2, 3, 4, 5, 6, 7, 8, 9, 10, 11, 12, 13, 14, 15]\<rparr>
     (Some [\<lparr>lm_index = 0, lm_x = 0, lm_y = 0\<rparr>, \<lparr>lm_index = 1, lm_x = 2, lm_y = 4\<rparr>]) 0
     = Inr (Some \<lparr>shape = [4, 3], buf = U8 [0, 1, 2, 4, 5, 6, 8, 9, 10, 12, 13, 14]\<rparr>, Some (0, 0, 3, 4))"
  by (simp add: crop_face_to_square_def bbox_left_edge Let_def slice_left_edge)

text \<open>
  C6: \<^verbatim>\<open>rotate_image\<close> is to return \<^verbatim>\<open>(None, None)\<close> for an absent image. The image is
  normalised before the test \<^verbatim>\<open>image_np is None\<close>, and \<^verbatim>\<open>_convert_to_numpy\<close> reads
  \<^verbatim>\<open>image.shape\<close> of \<^verbatim>\<open>None\<close>: the call raises \<^verbatim>\<open>AttributeError\<close> whatever the
  landmark table is, as it raises every error of the normalisation. For an image that
  normalises and an absent landmark table it does return \<^verbatim>\<open>(None, None)\<close>.
\<close>

theorem rotate_image_absent_image_raises:
  "rotate_image warpAffine PyNone landmarks_df = Inl AttributeError
   \<and> (\<forall>e. convert_to_numpy img = Inl e \<longrightarrow> rotate_image warpAffine img landmarks_df = Inl e)
   \<and> (\<forall>a. convert_to_numpy img = Inr a \<longrightarrow> rotate_image warpAffine img None = Inr (None, None))"
  by (simp add: rotate_image_def convert_to_numpy_def)

theorem rotate_image_absent_image_raises_witness:
  "rotate_image (\<lambda>a m s. a) PyNone None = Inl AttributeError
   \<and> rotate_image (\<lambda>a m s. a)
         (NDArray \<lparr>shape = [2, 2, 3], buf = U8 [0, 1, 2, 3, 4, 5, 6, 7, 8, 9, 10, 11]\<rparr>) None
       = Inr (None, None)"
  using rotate_image_absent_image_raises[of "\<lambda>a m s. a" None
      "NDArray \<lparr>shape = [2, 2, 3], buf = U8 [0, 1, 2, 3, 4, 5, 6, 7, 8, 9, 10, 11]\<rparr>"]
    convert_small_rgb
  by simp

text \<open>
  C7, as the code has it. The claim promises an array-bounds failure for a box that
  extends past the image. A slice with a bound past the end is clipped to the end and
  raises nothing: on a 2 x 2 image the box \<open>(1, 0, 4, 7)\<close> gives the crop of 2 rows and
  1 column that lies inside the image.
\<close>

theorem crop_face_oversized_box_counterexample:
  "calculate_face_bbox
     (Some [\<lparr>lm_index = 0, lm_x = 1, lm_y = 0\<rparr>, \<lparr>lm_index = 1, lm_x = 5, lm_y = 7\<rparr>]) 0 = Some (1, 0, 4, 7)
   \<and> crop_face (NDArray \<lparr>shape = [2, 2, 3], buf = U8 [0, 1, 2, 3, 4, 5, 6, 7, 8, 9, 10, 11]\<rparr>)
     (Some [\<lparr>lm_index = 0, lm_x = 1, lm_y = 0\<rparr>, \<lparr>lm_index = 1, lm_x = 5, lm_y = 7\<rparr>]) 0
     = Inr (Some \<lparr>shape = [2, 1, 3], buf = U8 [3, 4, 5, 9, 10, 11]\<rparr>)"
  by (simp add: crop_face_def bbox_oversized convert_small_rgb slice_oversized)


lemma two_axes:
  assumes "2 \<le> length xs"
  obtains a b r where "xs = a # b # r"
proof (cases xs)
  case Nil
  with assms show ?thesis by simp
next
  case (Cons a ys)
  with assms obtain b r where "ys = b # r"
    by (cases ys) auto
  with Cons that show ?thesis by blast
qed

lemma crop_face_to_square_unfold:
  assumes "shape img = H # W # rest"
      and "calculate_face_bbox lm p = Some (x0, y0, w0, h0)"
  shows "crop_face_to_square img lm p =
     (case getitem_slice2 img
        (if min (int H) (y0 + h0 div 2 + max w0 h0 div 2) - max 0 (y0 + h0 div 2 - max w0 h0 div 2) < max w0 h0
         then max 0 (min (int H) (y0 + h0 div 2 + max w0 h0 div 2) - max w0 h0)
         else max 0 (y0 + h0 div 2 - max w0 h0 div 2))
        (min (int H) (y0 + h0 div 2 + max w0 h0 div 2))
        (if min (int W) (x0 + w0 div 2 + max w0 h0 div 2) - max 0 (x0 + w0 div 2 - max w0 h0 div 2) < max w0 h0
         then max 0 (min (int W) (x0 + w0 div 2 + max w0 h0 div 2) - max w0 h0)
         else max 0 (x0 + w0 div 2 - max w0 h0 div 2))
        (min (int W) (x0 + w0 div 2 + max w0 h0 div 2))
      of Inl e \<Rightarrow> Inl e
       | Inr cropped_face \<Rightarrow>
           Inr (Some cropped_face,
                Some ((if min (int W) (x0 + w0 div 2 + max w0 h0 div 2) - max 0 (x0 + w0 div 2 - max w0 h0 div 2) < max w0 h0
                       then max 0 (min (int W) (x0 + w0 div 2 + max w0 h0 div 2) - max w0 h0)
                       else max 0 (x0 + w0 div 2 - max w0 h0 div 2)),
                      (if min (int H) (y0 + h0 div 2 + max w0 h0 div 2) - max 0 (y0 + h0 div 2 - max w0 h0 div 2) < max w0 h0
                       then max 0 (min (int H) (y0 + h0 div 2 + max w0 h0 div 2) - max w0 h0)
                       else max 0 (y0 + h0 div 2 - max w0 h0 div 2)),
                      min (int W) (x0 + w0 div 2 + max w0 h0 div 2)
                        - (if min (int W) (x0 + w0 div 2 + max w0 h0 div 2) - max 0 (x0 + w0 div 2 - max w0 h0 div 2) < max w0 h0
                           then max 0 (min (int W) (x0 + w0 div 2 + max w0 h0 div 2) - max w0 h0)
                           else max 0 (x0 + w0 div 2 - max w0 h0 div 2)),
                      min (int H) (y0 + h0 div 2 + max w0 h0 div 2)
                        - (if min (int H) (y0 + h0 div 2 + max w0 h0 div 2) - max 0 (y0 + h0 div 2 - max w0 h0 div 2) < max w0 h0
                           then max 0 (min (int H) (y0 + h0 div 2 + max w0 h0 div 2) - max w0 h0)
                           else max 0 (y0 + h0 div 2 - max w0 h0 div 2)))))"
proof -
  have s: "shape img ! 1 = W" "shape img ! 0 = H" "(length (shape img) < 2) = False"
    using assms(1) by simp_all
  show ?thesis
    unfolding crop_face_to_square_def assms(2) Let_def s
    by (simp only: option.case prod.case if_False)
qed

text \<open>
  C10, amended: for every image with at least two axes, and every landmark table and
  padding whose face bounding box has a non-negative width and height, the box
  \<open>(x1, y1, w, h)\<close> returned by \<^verbatim>\<open>crop_face_to_square\<close> lies within the image
  (\<open>x1 \<ge> 0\<close>, \<open>y1 \<ge> 0\<close>, \<open>x1 + w \<le> width\<close>, \<open>y1 + h \<le> height\<close>) and the crop is
  \<open>h\<close> rows by \<open>w\<close> columns.
\<close>

theorem crop_face_to_square_bbox_within_image:
  assumes "shape img = H # W # rest"
      and "calculate_face_bbox lm p = Some (x0, y0, w0, h0)"
      and "0 \<le> w0" and "0 \<le> h0"
  shows "\<exists>crop x1 y1 w h.
           crop_face_to_square img lm p = Inr (Some crop, Some (x1, y1, w, h))
         \<and> 0 \<le> x1 \<and> 0 \<le> y1 \<and> 0 \<le> w \<and> 0 \<le> h
         \<and> x1 + w \<le> int W \<and> y1 + h \<le> int H
         \<and> shape crop = [nat h, nat w] @ rest"
proof -
  define center_x center_y crop_size half_size
    where "center_x = x0 + w0 div 2" and "center_y = y0 + h0 div 2"
      and "crop_size = max w0 h0" and "half_size = crop_size div 2"
  define x2 y2 where "x2 = min (int W) (center_x + half_size)"
    and "y2 = min (int H) (center_y + half_size)"
  define x1 y1
    where "x1 = (if x2 - max 0 (center_x - half_size) < crop_size
                 then max 0 (x2 - crop_size) else max 0 (center_x - half_size))"
      and "y1 = (if y2 - max 0 (center_y - half_size) < crop_size
                 then max 0 (y2 - crop_size) else max 0 (center_y - half_size))"
  have o: "0 \<le> x0" "0 \<le> y0"
    using calculate_face_bbox_origin[OF assms(2)] by simp_all
  have c: "0 \<le> center_x" "0 \<le> center_y" "0 \<le> half_size" "0 \<le> crop_size"
    using o assms(3,4) by (simp_all add: center_x_def center_y_def half_size_def crop_size_def)
  have X: "0 \<le> x1" "x1 \<le> x2" "x2 \<le> int W"
    unfolding x1_def x2_def by (rule square_axis[OF c(1) c(3) c(4)])+
  have Y: "0 \<le> y1" "y1 \<le> y2" "y2 \<le> int H"
    unfolding y1_def y2_def by (rule square_axis[OF c(2) c(3) c(4)])+
  obtain crop where crop: "getitem_slice2 img y1 y2 x1 x2 = Inr crop"
    using getitem_slice2_total[OF assms(1)] by blast
  have "shape crop = (nat (min y2 (int H)) - nat (min y1 (int H)))
                     # (nat (min x2 (int W)) - nat (min x1 (int W))) # rest"
    using X Y by (intro getitem_slice2_shape[OF assms(1) _ _ _ _ crop]) simp_all
  then have shp: "shape crop = [nat (y2 - y1), nat (x2 - x1)] @ rest"
    using X Y by (simp add: min_def nat_diff_distrib)
  have "crop_face_to_square img lm p =
          (case getitem_slice2 img y1 y2 x1 x2 of
             Inl e \<Rightarrow> Inl e
           | Inr cropped_face \<Rightarrow> Inr (Some cropped_face, Some (x1, y1, x2 - x1, y2 - y1)))"
    unfolding x1_def y1_def x2_def y2_def half_size_def crop_size_def center_x_def center_y_def
    by (rule crop_face_to_square_unfold[OF assms(1,2)])
  then have "crop_face_to_square img lm p = Inr (Some crop, Some (x1, y1, x2 - x1, y2 - y1))"
    by (simp add: crop)
  then show ?thesis
    using X Y shp by auto
qed

theorem crop_face_to_square_bbox_within_image_witness:
  "crop_face_to_square \<lparr>shape = [4, 4], buf = U8 [0, 1, 2, 3, 4, 5, 6, 7, 8, 9, 10, 11, 12, 13, 14, 15]\<rparr>
     (Some [\<lparr>lm_index = 0, lm_x = 1, lm_y = 1\<rparr>, \<lparr>lm_index = 1, lm_x = 3, lm_y = 3\<rparr>]) 0
     = Inr (Some \<lparr>shape = [2, 2], buf = U8 [5, 6, 9, 10]\<rparr>, Some (1, 1, 2, 2))
   \<and> (1 :: int) + 2 \<le> int 4"
proof -
  have e: "crop_face_to_square \<lparr>shape = [4, 4], buf = U8 [0, 1, 2, 3, 4, 5, 6, 7, 8, 9, 10, 11, 12, 13, 14, 15]\<rparr>
     (Some [\<lparr>lm_index = 0, lm_x = 1, lm_y = 1\<rparr>, \<lparr>lm_index = 1, lm_x = 3, lm_y = 3\<rparr>]) 0
     = Inr (Some \<lparr>shape = [2, 2], buf = U8 [5, 6, 9, 10]\<rparr>, Some (1, 1, 2, 2))"
    by (simp add: crop_face_to_square_def bbox_inside Let_def slice_inside)
  show ?thesis
    using e crop_face_to_square_bbox_within_image[OF _ bbox_inside, of
        "\<lparr>shape = [4, 4], buf = U8 [0, 1, 2, 3, 4, 5, 6, 7, 8, 9, 10, 11, 12, 13, 14, 15]\<rparr>" 4 4 "[]"]
    by simp
qed

lemma length_concat_blocks:
  "\<forall>x \<in> set xs. length (f x) = n \<Longrightarrow> length (concat (map f xs)) = length xs * n"
  by (induction xs) simp_all

lemma nth_concat_blocks:
  assumes "\<forall>x \<in> set xs. length (f x) = n" and "i < length xs" and "j < n"
  shows "concat (map f xs) ! (i * n + j) = f (xs ! i) ! j"
  using assms
proof (induction xs arbitrary: i)
  case Nil
  then show ?case by simp
next
  case (Cons x xs)
  show ?case
  proof (cases i)
    case 0
    with Cons.prems show ?thesis
      by (simp add: nth_append)
  next
    case (Suc i')
    with Cons.prems have "concat (map f xs) ! (i' * n + j) = f (xs ! i') ! j"
      by (intro Cons.IH) simp_all
    with Suc Cons.prems show ?thesis
      by (simp add: nth_append)
  qed
qed

lemma gather_gather:
  "\<forall>i \<in> set idx'. i < length idx \<Longrightarrow>
   gather idx' (gather idx b) = gather (map (\<lambda>i. idx ! i) idx') b"
  by (cases b) simp_all

text \<open>The flat positions that a slice gathers, and the position of a pixel among them.\<close>

lemma slice_positions_nth:
  fixes W inner r0 r1 c0 c1 :: nat
  assumes "i < r1 - r0" and "j < c1 - c0" and "k < inner"
  shows "concat (map (\<lambda>i. concat (map (\<lambda>j. map (\<lambda>k. (i * W + j) * inner + k) [0..<inner])
            [c0..<c1])) [r0..<r1]) ! ((i * (c1 - c0) + j) * inner + k)
         = ((r0 + i) * W + (c0 + j)) * inner + k"
    and "(i * (c1 - c0) + j) * inner + k
         < length (concat (map (\<lambda>i. concat (map (\<lambda>j. map (\<lambda>k. (i * W + j) * inner + k) [0..<inner])
            [c0..<c1])) [r0..<r1]))"
proof -
  define row where "row = (\<lambda>i. concat (map (\<lambda>j. map (\<lambda>k. (i * W + j) * inner + k) [0..<inner]) [c0..<c1]))"
  have len_row: "length (row r) = (c1 - c0) * inner" for r
    unfolding row_def by (subst length_concat_blocks[where n = inner]) simp_all
  have jk: "j * inner + k < (c1 - c0) * inner"
  proof -
    have "j * inner + k < (j + 1) * inner"
      using assms(3) by simp
    also have "\<dots> \<le> (c1 - c0) * inner"
      using assms(2) by (intro mult_le_mono1) simp
    finally show ?thesis .
  qed
  have split: "(i * (c1 - c0) + j) * inner + k = i * ((c1 - c0) * inner) + (j * inner + k)"
    by (simp add: algebra_simps)
  have "concat (map row [r0..<r1]) ! (i * ((c1 - c0) * inner) + (j * inner + k))
          = row ([r0..<r1] ! i) ! (j * inner + k)"
    using assms(1) jk by (intro nth_concat_blocks) (simp_all add: len_row)
  also have "\<dots> = row (r0 + i) ! (j * inner + k)"
    using assms(1) by simp
  also have "\<dots> = (map (\<lambda>k. ((r0 + i) * W + ([c0..<c1] ! j)) * inner + k) [0..<inner]) ! k"
    unfolding row_def using assms(2,3) by (subst nth_concat_blocks[where n = inner]) simp_all
  also have "\<dots> = ((r0 + i) * W + (c0 + j)) * inner + k"
    using assms(2,3) by simp
  finally show "concat (map (\<lambda>i. concat (map (\<lambda>j. map (\<lambda>k. (i * W + j) * inner + k) [0..<inner])
            [c0..<c1])) [r0..<r1]) ! ((i * (c1 - c0) + j) * inner + k)
         = ((r0 + i) * W + (c0 + j)) * inner + k"
    unfolding split row_def .
  have "length (concat (map row [r0..<r1])) = (r1 - r0) * ((c1 - c0) * inner)"
    by (subst length_concat_blocks[where n = "(c1 - c0) * inner"]) (simp_all add: len_row)
  moreover have "i * ((c1 - c0) * inner) + (j * inner + k) < (r1 - r0) * ((c1 - c0) * inner)"
  proof -
    have "i * ((c1 - c0) * inner) + (j * inner + k) < (i + 1) * ((c1 - c0) * inner)"
      using jk by simp
    also have "\<dots> \<le> (r1 - r0) * ((c1 - c0) * inner)"
      using assms(1) by (intro mult_le_mono1) simp
    finally show ?thesis .
  qed
  ultimately show "(i * (c1 - c0) + j) * inner + k
         < length (concat (map (\<lambda>i. concat (map (\<lambda>j. map (\<lambda>k. (i * W + j) * inner + k) [0..<inner])
            [c0..<c1])) [r0..<r1]))"
    unfolding split row_def by simp
qed

lemma getitem_slice2_pixel:
  assumes s: "shape img = H # W # rest"
      and nn: "0 \<le> a" "0 \<le> b" "0 \<le> c" "0 \<le> d"
      and out: "getitem_slice2 img a b c d = Inr out"
      and i: "i < nat (min b (int H)) - nat (min a (int H))"
      and j: "j < nat (min d (int W)) - nat (min c (int W))"
  shows "getitem_index2 out i j
           = getitem_index2 img (nat (min a (int H)) + i) (nat (min c (int W)) + j)"
proof -
  define r0 r1 c0 c1 where "r0 = nat (min a (int H))" and "r1 = nat (min b (int H))"
    and "c0 = nat (min c (int W))" and "c1 = nat (min d (int W))"
  define inner where "inner = prod_list rest"
  define idx where "idx = concat (map (\<lambda>i. concat (map (\<lambda>j. map (\<lambda>k. (i * W + j) * inner + k)
                            [0..<inner]) [c0..<c1])) [r0..<r1])"
  have o: "out = \<lparr>shape = (r1 - r0) # (c1 - c0) # rest, buf = gather idx (buf img)\<rparr>"
    using out s nn
    by (simp add: getitem_slice2_def py_slice_indices_nonneg Let_def
          r0_def r1_def c0_def c1_def inner_def idx_def)
  have i': "i < r1 - r0" and j': "j < c1 - c0"
    using i j by (simp_all add: r0_def r1_def c0_def c1_def)
  have "r1 \<le> H" and "c1 \<le> W"
    by (simp_all add: r1_def c1_def)
  with i' j' have inb: "r0 + i < H" "c0 + j < W"
    by simp_all
  have pos: "idx ! ((i * (c1 - c0) + j) * inner + k) = ((r0 + i) * W + (c0 + j)) * inner + k"
    and lt: "(i * (c1 - c0) + j) * inner + k < length idx" if "k < inner" for k
    unfolding idx_def using slice_positions_nth[OF i' j' that] by simp_all
  have "gather (map (\<lambda>k. (i * (c1 - c0) + j) * inner + k) [0..<inner]) (gather idx (buf img))
          = gather (map (\<lambda>x. idx ! x) (map (\<lambda>k. (i * (c1 - c0) + j) * inner + k) [0..<inner])) (buf img)"
  proof (rule gather_gather, rule ballI)
    fix x
    assume "x \<in> set (map (\<lambda>k. (i * (c1 - c0) + j) * inner + k) [0..<inner])"
    then obtain k where "k \<in> {0..<inner}" and "x = (i * (c1 - c0) + j) * inner + k"
      unfolding set_map set_upt by blast
    then show "x < length idx"
      by (simp add: lt)
  qed
  also have "map (\<lambda>x. idx ! x) (map (\<lambda>k. (i * (c1 - c0) + j) * inner + k) [0..<inner])
          = map (\<lambda>k. ((r0 + i) * W + (c0 + j)) * inner + k) [0..<inner]"
    by (simp add: pos)
  finally have b: "gather (map (\<lambda>k. (i * (c1 - c0) + j) * inner + k) [0..<inner]) (gather idx (buf img))
          = gather (map (\<lambda>k. ((r0 + i) * W + (c0 + j)) * inner + k) [0..<inner]) (buf img)" .
  have "getitem_index2 out i j
          = Inr \<lparr>shape = rest,
                 buf = gather (map (\<lambda>k. (i * (c1 - c0) + j) * inner + k) [0..<inner])
                         (gather idx (buf img))\<rparr>"
    using i' j' by (simp add: getitem_index2_def o inner_def)
  moreover have "getitem_index2 img (r0 + i) (c0 + j)
          = Inr \<lparr>shape = rest,
                 buf = gather (map (\<lambda>k. ((r0 + i) * W + (c0 + j)) * inner + k) [0..<inner])
                         (buf img)\<rparr>"
    using inb by (simp add: getitem_index2_def s inner_def)
  ultimately show ?thesis
    unfolding r0_def[symmetric] c0_def[symmetric] by (simp add: b)
qed

text \<open>
  C7, amended: whenever the image normalises and a bounding box is derivable,
  \<^verbatim>\<open>crop_face\<close> returns a crop and raises nothing; for a box of non-negative width and
  height the crop is the part of the box inside the image: it has the rows \<open>min y H\<close> to
  \<open>min (y + h) H\<close> and the columns \<open>min x W\<close> to \<open>min (x + w) W\<close> of the image, and its
  pixel in row \<open>i\<close> and column \<open>j\<close> is the pixel of the image in row \<open>min y H + i\<close> and
  column \<open>min x W + j\<close>. A box past the image bounds is silently truncated.
\<close>

theorem crop_face_truncates:
  assumes "convert_to_numpy img = Inr a"
      and "calculate_face_bbox lm p = Some (x0, y0, w0, h0)"
  shows "\<exists>crop H W rest.
           shape a = H # W # rest
         \<and> crop_face img lm p = Inr (Some crop)
         \<and> (0 \<le> w0 \<and> 0 \<le> h0 \<longrightarrow>
              shape crop = (nat (min (y0 + h0) (int H)) - nat (min y0 (int H)))
                         # (nat (min (x0 + w0) (int W)) - nat (min x0 (int W))) # rest
            \<and> (\<forall>i j. i < nat (min (y0 + h0) (int H)) - nat (min y0 (int H))
                     \<and> j < nat (min (x0 + w0) (int W)) - nat (min x0 (int W)) \<longrightarrow>
                   getitem_index2 crop i j
                     = getitem_index2 a (nat (min y0 (int H)) + i) (nat (min x0 (int W)) + j)))"
proof -
  have "3 \<le> length (shape a)"
    by (rule convert_to_numpy_ndim[OF assms(1)])
  then have "2 \<le> length (shape a)"
    by simp
  then obtain H W rest where s: "shape a = H # W # rest"
    by (rule two_axes)
  obtain crop where crop: "getitem_slice2 a y0 (y0 + h0) x0 (x0 + w0) = Inr crop"
    using getitem_slice2_total[OF s] by blast
  have o: "0 \<le> x0" "0 \<le> y0"
    using calculate_face_bbox_origin[OF assms(2)] by simp_all
  have shp: "shape crop = (nat (min (y0 + h0) (int H)) - nat (min y0 (int H)))
                 # (nat (min (x0 + w0) (int W)) - nat (min x0 (int W))) # rest"
    if "0 \<le> w0 \<and> 0 \<le> h0"
    using o that by (intro getitem_slice2_shape[OF s _ _ _ _ crop]) simp_all
  have pix: "getitem_index2 crop i j
                     = getitem_index2 a (nat (min y0 (int H)) + i) (nat (min x0 (int W)) + j)"
    if "0 \<le> w0 \<and> 0 \<le> h0"
      and "i < nat (min (y0 + h0) (int H)) - nat (min y0 (int H))
           \<and> j < nat (min (x0 + w0) (int W)) - nat (min x0 (int W))" for i j
    using o that by (intro getitem_slice2_pixel[OF s _ _ _ _ crop]) simp_all
  have "crop_face img lm p = Inr (Some crop)"
    by (simp add: crop_face_def assms crop)
  with s shp pix show ?thesis
    by blast
qed

theorem crop_face_truncates_witness:
  "crop_face (NDArray \<lparr>shape = [2, 2, 3], buf = U8 [0, 1, 2, 3, 4, 5, 6, 7, 8, 9, 10, 11]\<rparr>)
     (Some [\<lparr>lm_index = 0, lm_x = 1, lm_y = 0\<rparr>, \<lparr>lm_index = 1, lm_x = 5, lm_y = 7\<rparr>]) 0
     \<noteq> Inl IndexError"
  using crop_face_truncates[OF convert_small_rgb bbox_oversized] by auto

end
